theory Spec2Isabelle
  imports Main "HOL-Library.Word" "HOL-Library.Sublist"
begin

section \<open>Strings of the runtime\<close>

text \<open>
  A JavaScript string is a sequence of 16-bit code units; \<open>s.length\<close> counts code
  units. String literals of the source are written through \<open>js\<close>.
\<close>

type_synonym jschar = "16 word"
type_synonym jsstring = "jschar list"

definition js :: "string \<Rightarrow> jsstring" where
  "js s = map of_char s"

text \<open>
  \<open>String.prototype.trim\<close> removes, at both ends, the code units that ECMAScript
  calls WhiteSpace or LineTerminator.
\<close>

definition isWhiteSpace :: "jschar \<Rightarrow> bool" where
  "isWhiteSpace c =
     (c = 0x0009 \<or> c = 0x000A \<or> c = 0x000B \<or> c = 0x000C \<or> c = 0x000D \<or>
      c = 0x0020 \<or> c = 0x00A0 \<or> c = 0x1680 \<or> (0x2000 \<le> c \<and> c \<le> 0x200A) \<or>
      c = 0x2028 \<or> c = 0x2029 \<or> c = 0x202F \<or> c = 0x205F \<or> c = 0x3000 \<or>
      c = 0xFEFF)"

definition trim :: "jsstring \<Rightarrow> jsstring" where
  "trim s = rev (dropWhile isWhiteSpace (rev (dropWhile isWhiteSpace s)))"

text \<open>\<open>s.includes(q)\<close>: some position of \<open>s\<close> starts a copy of \<open>q\<close>.\<close>

fun includes_js :: "jsstring \<Rightarrow> jsstring \<Rightarrow> bool" where
  "includes_js [] q = (q = [])"
| "includes_js (x # xs) q = (take (length q) (x # xs) = q \<or> includes_js xs q)"

text \<open>
  \<open>n.toString()\<close> for an integral number below \<open>10^21\<close> in magnitude, which every
  value of \<open>Date.now()\<close> is: the decimal digits, with a sign when negative.
\<close>

fun digits :: "nat \<Rightarrow> jsstring" where
  "digits n = (if n < 10 then [0x30 + of_nat n]
               else digits (n div 10) @ [0x30 + of_nat (n mod 10)])"

declare digits.simps [simp del]

definition Number_toString :: "int \<Rightarrow> jsstring" where
  "Number_toString n = (if n < 0 then 0x2D # digits (nat (- n)) else digits (nat n))"

text \<open>
  \<open>String.prototype.toLowerCase\<close> follows the Unicode case tables of the runtime. The
  functions below take it as the parameter \<open>toLowerCase\<close>; on Basic Latin it is the
  following map, which is used where a concrete run is evaluated.
\<close>

definition toLowerCase_latin :: "jsstring \<Rightarrow> jsstring" where
  "toLowerCase_latin s = map (\<lambda>c. if 0x41 \<le> c \<and> c \<le> 0x5A then c + 0x20 else c) s"

section \<open>ChatInterface.tsx: data\<close>

type_synonym Date = int

datatype Status = online | offline | away

datatype MessageType = text_type | image_type | file_type

record User =
  user_id :: jsstring
  user_name :: jsstring
  user_email :: jsstring
  user_avatar :: "jsstring option"
  user_status :: Status
  user_lastSeen :: "Date option"

record Message =
  msg_id :: jsstring
  msg_senderId :: jsstring
  msg_senderName :: jsstring
  msg_content :: jsstring
  msg_timestamp :: Date
  msg_type :: MessageType

record Chat =
  chat_id :: jsstring
  chat_participants :: "User list"
  chat_messages :: "Message list"
  chat_lastMessage :: "Message option"
  chat_isGroup :: bool
  chat_name :: "jsstring option"

text \<open>The component state of \<open>ChatInterface\<close> (its \<open>useState\<close> cells).\<close>

record ChatInterface_state =
  selectedChat :: "Chat option"
  chats :: "Chat list"
  message :: jsstring
  searchQuery :: jsstring
  showProfile :: bool
  showStats :: bool
  sidebarOpen :: bool

section \<open>ChatInterface.tsx: operations\<close>

text \<open>
  \<open>loadChats\<close>: the mock conversation with Alice. \<open>now1\<close> and \<open>now2\<close> are
  the two readings of \<open>Date.now()\<close>; the conversation is selected unless the layout
  is the mobile one.
\<close>

definition mockChats :: "User \<Rightarrow> Date \<Rightarrow> Date \<Rightarrow> Chat list" where
  "mockChats currentUser now1 now2 =
     [\<lparr> chat_id = js ''1'',
        chat_participants =
          [currentUser,
           \<lparr> user_id = js ''mock-user-1'',
             user_name = js ''Alice Johnson'',
             user_email = js ''alice@example.com'',
             user_avatar = Some (js ''https://api.dicebear.com/7.x/avataaars/svg?seed=Alice''),
             user_status = online,
             user_lastSeen = None \<rparr>],
        chat_messages =
          [\<lparr> msg_id = js ''1'',
             msg_senderId = js ''mock-user-1'',
             msg_senderName = js ''Alice Johnson'',
             msg_content = js ''Hey there! How are you doing?'',
             msg_timestamp = now1 - 1000 * 60 * 30,
             msg_type = text_type \<rparr>,
           \<lparr> msg_id = js ''2'',
             msg_senderId = user_id currentUser,
             msg_senderName = user_name currentUser,
             msg_content = js ''I'm doing great! Thanks for asking. How about you?'',
             msg_timestamp = now2 - 1000 * 60 * 25,
             msg_type = text_type \<rparr>],
        chat_lastMessage = None,
        chat_isGroup = False,
        chat_name = None \<rparr>]"

definition loadChats ::
  "User \<Rightarrow> bool \<Rightarrow> Date \<Rightarrow> Date \<Rightarrow> ChatInterface_state \<Rightarrow> ChatInterface_state" where
  "loadChats currentUser isMobile now1 now2 s =
     (let s1 = s\<lparr>chats := mockChats currentUser now1 now2\<rparr>
      in if length (mockChats currentUser now1 now2) > 0 \<and> \<not> isMobile
         then s1\<lparr>selectedChat := Some (mockChats currentUser now1 now2 ! 0)\<rparr>
         else s1)"

text \<open>
  \<open>handleSendMessage\<close>. The handler contains no \<open>await\<close>: it runs to its end in the
  event that calls it, so it is one state transformer with no remote outcome among its
  inputs. \<open>nowMs\<close> is the value of \<open>Date.now()\<close> and \<open>nowDate\<close> that of
  \<open>new Date()\<close>, two readings of the clock.
\<close>

definition newMessage :: "User \<Rightarrow> Date \<Rightarrow> Date \<Rightarrow> jsstring \<Rightarrow> Message" where
  "newMessage currentUser nowMs nowDate draft =
     \<lparr> msg_id = Number_toString nowMs,
       msg_senderId = user_id currentUser,
       msg_senderName = user_name currentUser,
       msg_content = trim draft,
       msg_timestamp = nowDate,
       msg_type = text_type \<rparr>"

definition handleSendMessage ::
  "User \<Rightarrow> Date \<Rightarrow> Date \<Rightarrow> ChatInterface_state \<Rightarrow> ChatInterface_state" where
  "handleSendMessage currentUser nowMs nowDate s =
     (if trim (message s) = [] then s
      else
        case selectedChat s of
          None \<Rightarrow> s
        | Some sel \<Rightarrow>
            let updatedChat =
                  sel\<lparr>chat_messages :=
                        chat_messages sel @ [newMessage currentUser nowMs nowDate (message s)]\<rparr>
            in s\<lparr>chats := map (\<lambda>chat. if chat_id chat = chat_id sel then updatedChat else chat)
                               (chats s),
                 selectedChat := Some updatedChat,
                 message := []\<rparr>)"

text \<open>\<open>getChatPartner\<close>: \<open>Array.prototype.find\<close>, the first participant that is not the local user.\<close>

definition getChatPartner :: "User \<Rightarrow> Chat \<Rightarrow> User option" where
  "getChatPartner currentUser chat =
     List.find (\<lambda>p. user_id p \<noteq> user_id currentUser) (chat_participants chat)"

text \<open>
  \<open>filteredChats\<close>. An optional chain on an absent partner or an absent name yields
  \<open>undefined\<close>, which the filter reads as false.
\<close>

definition chatMatches :: "(jsstring \<Rightarrow> jsstring) \<Rightarrow> User \<Rightarrow> jsstring \<Rightarrow> Chat \<Rightarrow> bool" where
  "chatMatches toLowerCase currentUser query chat =
     ((case getChatPartner currentUser chat of
         None \<Rightarrow> False
       | Some partner \<Rightarrow> includes_js (toLowerCase (user_name partner)) (toLowerCase query))
      \<or>
      (case chat_name chat of
         None \<Rightarrow> False
       | Some n \<Rightarrow> includes_js (toLowerCase n) (toLowerCase query)))"

definition filteredChats :: "(jsstring \<Rightarrow> jsstring) \<Rightarrow> User \<Rightarrow> jsstring \<Rightarrow> Chat list \<Rightarrow> Chat list" where
  "filteredChats toLowerCase currentUser query cs =
     filter (chatMatches toLowerCase currentUser query) cs"

text \<open>\<open>handleChatSelect\<close>.\<close>

definition handleChatSelect :: "bool \<Rightarrow> Chat \<Rightarrow> ChatInterface_state \<Rightarrow> ChatInterface_state" where
  "handleChatSelect isMobile chat s =
     (let s1 = s\<lparr>selectedChat := Some chat\<rparr>
      in if isMobile then s1\<lparr>sidebarOpen := False\<rparr> else s1)"

text \<open>
  The callback that \<open>setupRealtimeSubscriptions\<close> registers for an inserted row
  of the table \<open>messages\<close>: it writes the payload to the console and touches no
  state cell. The console is the second component of the pair.
\<close>

definition onInsert :: "'payload \<Rightarrow> ChatInterface_state \<times> 'payload list
                          \<Rightarrow> ChatInterface_state \<times> 'payload list" where
  "onInsert payload sc = (fst sc, snd sc @ [payload])"

section \<open>ChatApp.tsx: data\<close>

record UserProfile =
  profile_id :: jsstring
  profile_name :: jsstring
  profile_email :: jsstring
  profile_avatar :: "jsstring option"
  profile_status :: Status
  profile_lastSeen :: "Date option"
  profile_bio :: "jsstring option"
  profile_location :: "jsstring option"
  profile_joinedAt :: "Date option"

datatype AuthMode = Mode_login | Mode_register | Mode_otp | Mode_chat

record LoginData =
  login_email :: jsstring
  login_password :: jsstring

record RegisterData =
  reg_fullName :: jsstring
  reg_email :: jsstring
  reg_password :: jsstring

text \<open>
  What the handlers read of the identity provider's types: a user has an id and
  possibly an email, a session carries its user, an error possibly a message.
\<close>

record AuthUser =
  authUser_id :: jsstring
  authUser_email :: "jsstring option"

record Session =
  session_user :: AuthUser
  session_access_token :: jsstring

record AuthError =
  error_message :: "jsstring option"

text \<open>
  The settled value of an awaited remote call: the promise resolves with the
  \<open>error\<close> field of its result (\<open>None\<close> for \<open>null\<close>), or it rejects.
\<close>

datatype Awaited = resolved "AuthError option" | rejected AuthError

text \<open>
  \<open>const { error } = await call; if (error) throw error;\<close> \<comment> \<open>the error that
  reaches the \<open>catch\<close> block, if any.\<close>
\<close>

fun thrown :: "Awaited \<Rightarrow> AuthError option" where
  "thrown (resolved None) = None"
| "thrown (resolved (Some error)) = Some error"
| "thrown (rejected error) = Some error"

datatype Variant = destructive

record Toast =
  toast_title :: jsstring
  toast_description :: jsstring
  toast_variant :: "Variant option"

text \<open>\<open>a || b\<close> for a string \<open>a\<close> that may be undefined: the empty string is falsy.\<close>

definition orElse :: "jsstring option \<Rightarrow> jsstring \<Rightarrow> jsstring" where
  "orElse a b = (case a of None \<Rightarrow> b | Some x \<Rightarrow> if x = [] then b else x)"

text \<open>
  The state cells of \<open>ChatApp\<close>, and the toasts it has raised, oldest first.
\<close>

record ChatApp_state =
  authMode :: AuthMode
  currentUser :: "UserProfile option"
  user :: "AuthUser option"
  session :: "Session option"
  pendingEmail :: jsstring
  isLoading :: bool
  toasts :: "Toast list"

definition toast :: "Toast \<Rightarrow> ChatApp_state \<Rightarrow> ChatApp_state" where
  "toast t s = s\<lparr>toasts := toasts s @ [t]\<rparr>"

definition initial_state :: ChatApp_state where
  "initial_state =
     \<lparr> authMode = Mode_login, currentUser = None, user = None, session = None,
       pendingEmail = [], isLoading = False, toasts = [] \<rparr>"

section \<open>ChatApp.tsx: operations\<close>

text \<open>\<open>s.split(sep)\<close> for a separator of one code unit, and \<open>xs[0]\<close>.\<close>

fun split_js :: "jschar \<Rightarrow> jsstring \<Rightarrow> jsstring list" where
  "split_js sep [] = [[]]"
| "split_js sep (c # cs) =
     (if c = sep then [] # split_js sep cs
      else case split_js sep cs of
             [] \<Rightarrow> [[c]]
           | w # ws \<Rightarrow> (c # w) # ws)"

definition at0 :: "'a list \<Rightarrow> 'a option" where
  "at0 xs = (case xs of [] \<Rightarrow> None | x # _ \<Rightarrow> Some x)"

text \<open>\<open>user?.email\<close>.\<close>

definition email_of :: "AuthUser option \<Rightarrow> jsstring option" where
  "email_of u = (case u of None \<Rightarrow> None | Some v \<Rightarrow> authUser_email v)"

text \<open>
  \<open>fetchUserProfile\<close>. The \<open>user\<close> in its body is the constant of the render
  that created the closure, so it is the parameter \<open>closure_user\<close>, not a cell of the
  state at the call. The clock gives \<open>now\<close> (\<open>new Date()\<close>); nothing in the
  \<open>try\<close> block can throw, and the \<open>catch\<close> block would build the same value.
  The template literal prints an undefined email as \<open>undefined\<close>.
\<close>

definition avatarOf :: "jsstring option \<Rightarrow> jsstring" where
  "avatarOf email =
     js ''https://api.dicebear.com/7.x/avataaars/svg?seed='' @
     (case email of None \<Rightarrow> js ''undefined'' | Some e \<Rightarrow> e)"

definition nameOf :: "jsstring option \<Rightarrow> jsstring" where
  "nameOf email =
     orElse (case email of None \<Rightarrow> None | Some e \<Rightarrow> at0 (split_js 0x40 e)) (js ''User'')"

definition defaultUser :: "AuthUser option \<Rightarrow> jsstring \<Rightarrow> Date \<Rightarrow> UserProfile" where
  "defaultUser u userId now =
     \<lparr> profile_id = userId,
       profile_name = nameOf (email_of u),
       profile_email = orElse (email_of u) [],
       profile_avatar = Some (avatarOf (email_of u)),
       profile_status = online,
       profile_lastSeen = None,
       profile_bio = Some (js ''Hello! I'm using ChatApp''),
       profile_location = Some [],
       profile_joinedAt = Some now \<rparr>"

definition fetchUserProfile ::
  "AuthUser option \<Rightarrow> jsstring \<Rightarrow> Date \<Rightarrow> ChatApp_state \<Rightarrow> ChatApp_state" where
  "fetchUserProfile closure_user userId now s =
     s\<lparr>currentUser := Some (defaultUser closure_user userId now)\<rparr>"

text \<open>
  The effect that runs once at mount (dependencies \<open>[]\<close>) registers the listener of
  \<open>onAuthStateChange\<close> and the continuation of \<open>getSession\<close>. Both call the
  \<open>fetchUserProfile\<close> of the first render, in which \<open>user\<close> is the initial value
  of its cell. The listener defers that call with a timer of zero delay; the call writes
  only \<open>currentUser\<close>, so the state after the timer is the one below. \<open>now\<close> is
  the clock when the profile is built.
\<close>

definition onAuthStateChange :: "Session option \<Rightarrow> Date \<Rightarrow> ChatApp_state \<Rightarrow> ChatApp_state" where
  "onAuthStateChange sess now s =
     (let s1 = s\<lparr>session := sess, user := map_option session_user sess\<rparr>
      in case sess of
           Some se \<Rightarrow>
             fetchUserProfile (user initial_state) (authUser_id (session_user se)) now
               (s1\<lparr>authMode := Mode_chat\<rparr>)
         | None \<Rightarrow> s1\<lparr>currentUser := None, authMode := Mode_login\<rparr>)"

definition getSession_then :: "Session option \<Rightarrow> Date \<Rightarrow> ChatApp_state \<Rightarrow> ChatApp_state" where
  "getSession_then sess now s =
     (let s1 = s\<lparr>session := sess, user := map_option session_user sess\<rparr>
      in case sess of
           Some se \<Rightarrow>
             (fetchUserProfile (user initial_state) (authUser_id (session_user se)) now s1)
               \<lparr>authMode := Mode_chat\<rparr>
         | None \<Rightarrow> s1)"

text \<open>
  The asynchronous handlers suspend at one remote call. Each is modelled as the
  transformer from the state at the call to the state after the continuation has run,
  with the settled value of the call as an input.
\<close>

definition handleLogin :: "Awaited \<Rightarrow> LoginData \<Rightarrow> ChatApp_state \<Rightarrow> ChatApp_state" where
  "handleLogin signIn data s =
     (let s1 = s\<lparr>isLoading := True\<rparr>;
          s2 = (case thrown signIn of
                  None \<Rightarrow>
                    toast \<lparr> toast_title = js ''Welcome back!'',
                            toast_description = js ''You have successfully logged in.'',
                            toast_variant = None \<rparr> s1
                | Some error \<Rightarrow>
                    toast \<lparr> toast_title = js ''Login failed'',
                            toast_description =
                              orElse (error_message error)
                                (js ''Please check your credentials and try again.''),
                            toast_variant = Some destructive \<rparr> s1)
      in s2\<lparr>isLoading := False\<rparr>)"

definition handleRegister :: "Awaited \<Rightarrow> RegisterData \<Rightarrow> ChatApp_state \<Rightarrow> ChatApp_state" where
  "handleRegister signUp data s =
     (let s1 = s\<lparr>isLoading := True\<rparr>;
          s2 = (case thrown signUp of
                  None \<Rightarrow>
                    toast \<lparr> toast_title = js ''Account created!'',
                            toast_description =
                              js ''Please check your email for verification code.'',
                            toast_variant = None \<rparr>
                      (s1\<lparr>pendingEmail := reg_email data, authMode := Mode_otp\<rparr>)
                | Some error \<Rightarrow>
                    toast \<lparr> toast_title = js ''Registration failed'',
                            toast_description =
                              orElse (error_message error) (js ''Please try again later.''),
                            toast_variant = Some destructive \<rparr> s1)
      in s2\<lparr>isLoading := False\<rparr>)"

definition handleOTPVerification :: "Awaited \<Rightarrow> jsstring \<Rightarrow> ChatApp_state \<Rightarrow> ChatApp_state" where
  "handleOTPVerification verifyOtp otp s =
     (let s1 = s\<lparr>isLoading := True\<rparr>;
          s2 = (case thrown verifyOtp of
                  None \<Rightarrow>
                    toast \<lparr> toast_title = js ''Email verified!'',
                            toast_description =
                              js ''Welcome to ChatApp! You can now start chatting.'',
                            toast_variant = None \<rparr> s1
                | Some error \<Rightarrow>
                    toast \<lparr> toast_title = js ''Verification failed'',
                            toast_description =
                              orElse (error_message error)
                                (js ''Invalid OTP. Please check your email for the verification code.''),
                            toast_variant = Some destructive \<rparr> s1)
      in s2\<lparr>isLoading := False\<rparr>)"

definition handleLogout :: "Awaited \<Rightarrow> ChatApp_state \<Rightarrow> ChatApp_state" where
  "handleLogout signOut s =
     (case thrown signOut of
        None \<Rightarrow>
          toast \<lparr> toast_title = js ''Logged out'',
                  toast_description = js ''You have been successfully logged out.'',
                  toast_variant = None \<rparr>
            (s\<lparr>currentUser := None, user := None, session := None, authMode := Mode_login\<rparr>)
      | Some error \<Rightarrow>
          toast \<lparr> toast_title = js ''Logout failed'',
                  toast_description = orElse (error_message error) (js ''Please try again.''),
                  toast_variant = Some destructive \<rparr> s)"

section \<open>OTPForm.tsx\<close>

text \<open>
  \<open>handleSubmit\<close> of the form. Its effects, in order: toasts, and the call of the
  \<open>onSubmit\<close> property with the entered code. \<open>onSubmit_rejects\<close> tells whether
  the promise of that call rejects. The handler writes no state cell of the form.
\<close>

record OTPForm_state =
  otp :: jsstring
  isResending :: bool

datatype OTPForm_effect = Toasted Toast | Called_onSubmit jsstring

definition OTPForm_handleSubmit ::
  "bool \<Rightarrow> OTPForm_state \<Rightarrow> OTPForm_state \<times> OTPForm_effect list" where
  "OTPForm_handleSubmit onSubmit_rejects f =
     (if length (otp f) \<noteq> 6
      then (f, [Toasted \<lparr> toast_title = js ''Invalid OTP'',
                           toast_description = js ''Please enter a 6-digit OTP'',
                           toast_variant = Some destructive \<rparr>])
      else if \<not> onSubmit_rejects
      then (f, [Called_onSubmit (otp f),
                Toasted \<lparr> toast_title = js ''Email verified!'',
                          toast_description = js ''Your account has been successfully verified.'',
                          toast_variant = None \<rparr>])
      else (f, [Called_onSubmit (otp f),
                Toasted \<lparr> toast_title = js ''Verification failed'',
                          toast_description = js ''Invalid OTP. Please try again.'',
                          toast_variant = Some destructive \<rparr>]))"

text \<open>The \<open>disabled\<close> property of the button that calls \<open>handleSubmit\<close>.\<close>

definition submitDisabled :: "bool option \<Rightarrow> OTPForm_state \<Rightarrow> bool" where
  "submitDisabled isLoading_prop f = (isLoading_prop = Some True \<or> length (otp f) \<noteq> 6)"

section \<open>The specification's vocabulary\<close>

text \<open>The local part of an email address: the substring before the first \<open>@\<close>.\<close>

definition localPartOf :: "jsstring \<Rightarrow> jsstring" where
  "localPartOf e = takeWhile (\<lambda>c. c \<noteq> 0x40) e"

section \<open>Concrete runs\<close>

text \<open>
  The user Jane of the specification's scenarios, the interface as \<open>loadChats\<close>
  leaves it on a desktop and on a mobile layout, a group conversation, and a
  conversation whose only participant is the local user.
\<close>

definition jane :: User where
  "jane = \<lparr> user_id = js ''u-1'', user_name = js ''jane'', user_email = js ''jane@x.com'',
            user_avatar = Some (js ''https://api.dicebear.com/7.x/avataaars/svg?seed=jane@x.com''),
            user_status = online, user_lastSeen = None \<rparr>"

definition alice :: User where
  "alice = \<lparr> user_id = js ''mock-user-1'', user_name = js ''Alice Johnson'',
             user_email = js ''alice@example.com'',
             user_avatar = Some (js ''https://api.dicebear.com/7.x/avataaars/svg?seed=Alice''),
             user_status = online, user_lastSeen = None \<rparr>"

definition bob :: User where
  "bob = \<lparr> user_id = js ''mock-user-2'', user_name = js ''Bob Stone'',
           user_email = js ''bob@example.com'', user_avatar = None,
           user_status = away, user_lastSeen = None \<rparr>"

definition fresh :: ChatInterface_state where
  "fresh = \<lparr> selectedChat = None, chats = [], message = [], searchQuery = [],
             showProfile = False, showStats = False, sidebarOpen = False \<rparr>"

definition desktop :: ChatInterface_state where
  "desktop = loadChats jane False 1700000000000 1700000000001 fresh"

definition mobile :: ChatInterface_state where
  "mobile = loadChats jane True 1700000000000 1700000000001 fresh"

definition aliceChat :: Chat where
  "aliceChat = \<lparr> chat_id = js ''1'', chat_participants = [jane, alice], chat_messages = [],
                 chat_lastMessage = None, chat_isGroup = False, chat_name = None \<rparr>"

definition groupChat :: Chat where
  "groupChat = \<lparr> chat_id = js ''2'', chat_participants = [jane, alice, bob], chat_messages = [],
                 chat_lastMessage = None, chat_isGroup = True, chat_name = Some (js ''Team'') \<rparr>"

definition soloChat :: Chat where
  "soloChat = \<lparr> chat_id = js ''3'', chat_participants = [jane], chat_messages = [],
                chat_lastMessage = None, chat_isGroup = False, chat_name = None \<rparr>"

text \<open>
  The registration of the specification's scenario, the application state after the
  listener has received Jane's session at the login screen, and an error of the identity
  provider.
\<close>

definition janeData :: RegisterData where
  "janeData = \<lparr> reg_fullName = js ''Jane Doe'', reg_email = js ''jane@x.com'',
                reg_password = js ''secret1'' \<rparr>"

definition janeAuth :: AuthUser where
  "janeAuth = \<lparr> authUser_id = js ''u-1'', authUser_email = Some (js ''jane@x.com'') \<rparr>"

definition janeSession :: Session where
  "janeSession = \<lparr> session_user = janeAuth, session_access_token = js ''t'' \<rparr>"

definition registering :: ChatApp_state where
  "registering = initial_state\<lparr>authMode := Mode_register\<rparr>"

definition signedIn :: ChatApp_state where
  "signedIn = onAuthStateChange (Some janeSession) 1700000000000 initial_state"

definition networkError :: AuthError where
  "networkError = \<lparr> error_message = Some (js ''Failed to fetch'') \<rparr>"

text \<open>
  An interface with two conversations, the first one focused, and two states of the
  verification form.
\<close>

definition twoChats :: ChatInterface_state where
  "twoChats = fresh\<lparr>chats := [aliceChat, groupChat], selectedChat := Some aliceChat,
                     message := js '' hi ''\<rparr>"

definition sixDigits :: OTPForm_state where
  "sixDigits = \<lparr> otp = js ''123456'', isResending = False \<rparr>"

definition threeDigits :: OTPForm_state where
  "threeDigits = \<lparr> otp = js ''123'', isResending = False \<rparr>"

section \<open>Auxiliary facts\<close>

lemma take_length_eq_iff_prefix: "(take (length q) xs = q) = prefix q xs"
proof
  assume "take (length q) xs = q"
  then show "prefix q xs"
    using take_is_prefix [of "length q" xs] by simp
next
  assume "prefix q xs"
  then obtain zs where "xs = q @ zs"
    by (auto simp: prefix_def)
  then show "take (length q) xs = q"
    by simp
qed

lemma includes_js_iff_sublist: "includes_js s q = sublist q s"
  by (induction s) (simp_all add: sublist_Cons_right take_length_eq_iff_prefix)

lemma includes_js_iff: "includes_js s q = (\<exists>pre post. s = pre @ q @ post)"
  by (simp add: includes_js_iff_sublist sublist_def)

lemma includes_js_empty: "includes_js s []"
  by (simp add: includes_js_iff_sublist)

lemma at0_split_js: "at0 (split_js sep s) = Some (takeWhile (\<lambda>c. c \<noteq> sep) s)"
  by (induction s) (auto simp: at0_def split: list.splits)

lemma nameOf_localPart:
  "nameOf (Some e) = (if localPartOf e = [] then js ''User'' else localPartOf e)"
  by (simp add: nameOf_def at0_split_js orElse_def localPartOf_def)

lemma nameOf_absent: "nameOf None = js ''User''"
  by (simp add: nameOf_def orElse_def)

lemma find_first_of_filter:
  "List.find P xs = (case filter P xs of [] \<Rightarrow> None | x # _ \<Rightarrow> Some x)"
  by (induction xs) auto

lemma trim_hi: "trim (js '' hi '') = js ''hi''"
  by (simp add: js_def trim_def isWhiteSpace_def)

lemma trim_blank: "trim (js ''   '') = []"
  by (simp add: js_def trim_def isWhiteSpace_def)

section \<open>Sending a message\<close>

text \<open>
  Claim C1. When the draft has content other than white space and a conversation is
  focused, the focused conversation after \<open>handleSendMessage\<close> is the one before with
  exactly one message appended at the end of its sequence; the sender of that message
  is the local user, its content the trimmed draft and its timestamp the clock's value.
  Every conversation of the store that has the focused id carries the same sequence.
  The handler has no suspension point: it is a function of the state and the clock alone.
\<close>

theorem send_local_echo:
  assumes "trim (message s) \<noteq> []" and "selectedChat s = Some sel"
  shows "selectedChat (handleSendMessage me nowMs nowDate s) =
           Some (sel\<lparr>chat_messages :=
                       chat_messages sel @ [newMessage me nowMs nowDate (message s)]\<rparr>)
       \<and> msg_senderId (newMessage me nowMs nowDate (message s)) = user_id me
       \<and> msg_content (newMessage me nowMs nowDate (message s)) = trim (message s)
       \<and> msg_timestamp (newMessage me nowMs nowDate (message s)) = nowDate
       \<and> (\<forall>c \<in> set (chats (handleSendMessage me nowMs nowDate s)).
            chat_id c = chat_id sel \<longrightarrow>
            chat_messages c = chat_messages sel @ [newMessage me nowMs nowDate (message s)])"
  using assms by (auto simp: handleSendMessage_def newMessage_def Let_def)

theorem send_local_echo_witness:
  "trim (message (desktop\<lparr>message := js '' hi ''\<rparr>)) \<noteq> []
   \<and> selectedChat (desktop\<lparr>message := js '' hi ''\<rparr>) = Some (mockChats jane 1700000000000 1700000000001 ! 0)
   \<and> map_option chat_messages
        (selectedChat (handleSendMessage jane 1700000000123 1700000000124
                         (desktop\<lparr>message := js '' hi ''\<rparr>))) =
      Some (chat_messages (mockChats jane 1700000000000 1700000000001 ! 0) @
            [\<lparr> msg_id = js ''1700000000123'', msg_senderId = js ''u-1'',
               msg_senderName = js ''jane'', msg_content = js ''hi'',
               msg_timestamp = 1700000000124, msg_type = text_type \<rparr>])"
proof -
  have draft: "trim (message (desktop\<lparr>message := js '' hi ''\<rparr>)) \<noteq> []"
    by (simp add: trim_hi) (simp add: js_def)
  have focus: "selectedChat (desktop\<lparr>message := js '' hi ''\<rparr>) =
                 Some (mockChats jane 1700000000000 1700000000001 ! 0)"
    by (simp add: desktop_def loadChats_def fresh_def mockChats_def)
  have msg: "newMessage jane 1700000000123 1700000000124 (js '' hi '') =
               \<lparr> msg_id = js ''1700000000123'', msg_senderId = js ''u-1'',
                 msg_senderName = js ''jane'', msg_content = js ''hi'',
                 msg_timestamp = 1700000000124, msg_type = text_type \<rparr>"
    by (simp add: newMessage_def trim_hi jane_def Number_toString_def digits.simps)
       (simp add: js_def)
  show ?thesis
    using draft focus msg
      send_local_echo [OF draft focus, of jane 1700000000123 1700000000124]
    by simp
qed

text \<open>
  Claim C8. A send whose draft trims to the empty string, or that is issued while no
  conversation is focused, returns the state as it was: no conversation changes and the
  draft is not cleared.
\<close>

theorem send_guard_no_mutation:
  "trim (message s) = [] \<or> selectedChat s = None \<Longrightarrow>
   handleSendMessage me nowMs nowDate s = s"
  by (auto simp: handleSendMessage_def)

theorem send_guard_no_mutation_witness:
  "trim (message (desktop\<lparr>message := js ''   ''\<rparr>)) = []
   \<and> selectedChat (desktop\<lparr>message := js ''   ''\<rparr>) \<noteq> None
   \<and> handleSendMessage jane 5 6 (desktop\<lparr>message := js ''   ''\<rparr>) =
       desktop\<lparr>message := js ''   ''\<rparr>
   \<and> trim (message (mobile\<lparr>message := js '' hi ''\<rparr>)) \<noteq> []
   \<and> selectedChat (mobile\<lparr>message := js '' hi ''\<rparr>) = None
   \<and> handleSendMessage jane 5 6 (mobile\<lparr>message := js '' hi ''\<rparr>) =
       mobile\<lparr>message := js '' hi ''\<rparr>"
proof -
  have blank: "trim (message (desktop\<lparr>message := js ''   ''\<rparr>)) = []"
    by (simp add: trim_blank)
  have nofocus: "selectedChat (mobile\<lparr>message := js '' hi ''\<rparr>) = None"
    by (simp add: mobile_def loadChats_def fresh_def)
  have focus: "selectedChat (desktop\<lparr>message := js ''   ''\<rparr>) \<noteq> None"
    by (simp add: desktop_def loadChats_def fresh_def mockChats_def)
  have draft: "trim (message (mobile\<lparr>message := js '' hi ''\<rparr>)) \<noteq> []"
    by (simp add: trim_hi) (simp add: js_def)
  show ?thesis
    using blank nofocus focus draft
      send_guard_no_mutation [of "desktop\<lparr>message := js ''   ''\<rparr>" jane 5 6]
      send_guard_no_mutation [of "mobile\<lparr>message := js '' hi ''\<rparr>" jane 5 6]
    by simp
qed

text \<open>
  Claim C9. A send keeps the number and the order of the conversations, and every
  conversation whose id differs from the focused one's is unchanged in all its fields;
  so are the search query and the flags of the interface.
\<close>

theorem send_frame:
  "length (chats (handleSendMessage me nowMs nowDate s)) = length (chats s)
   \<and> (\<forall>i < length (chats s).
        (\<forall>sel. selectedChat s = Some sel \<longrightarrow> chat_id (chats s ! i) \<noteq> chat_id sel) \<longrightarrow>
        chats (handleSendMessage me nowMs nowDate s) ! i = chats s ! i)
   \<and> searchQuery (handleSendMessage me nowMs nowDate s) = searchQuery s
   \<and> showProfile (handleSendMessage me nowMs nowDate s) = showProfile s
   \<and> showStats (handleSendMessage me nowMs nowDate s) = showStats s
   \<and> sidebarOpen (handleSendMessage me nowMs nowDate s) = sidebarOpen s"
  by (auto simp: handleSendMessage_def Let_def split: option.splits)

theorem send_frame_witness:
  "selectedChat twoChats = Some aliceChat
   \<and> chat_id (chats twoChats ! 1) \<noteq> chat_id aliceChat
   \<and> length (chats (handleSendMessage jane 5 6 twoChats)) = 2
   \<and> chats (handleSendMessage jane 5 6 twoChats) ! 1 = groupChat
   \<and> chats (handleSendMessage jane 5 6 twoChats) ! 0 \<noteq> aliceChat"
proof -
  have sel: "selectedChat twoChats = Some aliceChat"
    by (simp add: twoChats_def fresh_def)
  have cs: "chats twoChats = [aliceChat, groupChat]"
    by (simp add: twoChats_def fresh_def)
  have other: "chat_id groupChat \<noteq> chat_id aliceChat"
    by (simp add: groupChat_def aliceChat_def js_def)
  have draft: "trim (message twoChats) \<noteq> []"
    by (simp add: twoChats_def fresh_def trim_hi) (simp add: js_def)
  have changed: "chats (handleSendMessage jane 5 6 twoChats) ! 0 \<noteq> aliceChat"
    using draft by (simp add: handleSendMessage_def sel cs Let_def) (simp add: aliceChat_def)
  show ?thesis
    using sel cs other changed send_frame [of jane 5 6 twoChats]
    by (simp add: nth_Cons')
qed

section \<open>The verification form\<close>

text \<open>
  Claim C10. The submit handler of the verification form calls \<open>onSubmit\<close> exactly
  when the entered code has six code units, and then with that code. For any other
  length its only effect is the destructive toast \<open>Invalid OTP\<close>; no cell of the form
  changes. With a code of length six that toast is not raised, and the button that calls
  the handler is enabled only for such a code.
\<close>

theorem otp_length_guard:
  "(Called_onSubmit x \<in> set (snd (OTPForm_handleSubmit rejects f))) =
     (length (otp f) = 6 \<and> x = otp f)
   \<and> (length (otp f) \<noteq> 6 \<longrightarrow>
        OTPForm_handleSubmit rejects f =
          (f, [Toasted \<lparr> toast_title = js ''Invalid OTP'',
                         toast_description = js ''Please enter a 6-digit OTP'',
                         toast_variant = Some destructive \<rparr>]))
   \<and> (length (otp f) = 6 \<longrightarrow>
        Toasted \<lparr> toast_title = js ''Invalid OTP'',
                  toast_description = js ''Please enter a 6-digit OTP'',
                  toast_variant = Some destructive \<rparr>
          \<notin> set (snd (OTPForm_handleSubmit rejects f)))
   \<and> fst (OTPForm_handleSubmit rejects f) = f
   \<and> (\<not> submitDisabled loading f \<longrightarrow> length (otp f) = 6)"
  by (auto simp: OTPForm_handleSubmit_def submitDisabled_def js_def)

theorem otp_length_guard_witness:
  "length (otp threeDigits) \<noteq> 6
   \<and> OTPForm_handleSubmit False threeDigits =
       (threeDigits, [Toasted \<lparr> toast_title = js ''Invalid OTP'',
                                toast_description = js ''Please enter a 6-digit OTP'',
                                toast_variant = Some destructive \<rparr>])
   \<and> Called_onSubmit (js ''123'') \<notin> set (snd (OTPForm_handleSubmit False threeDigits))
   \<and> length (otp sixDigits) = 6
   \<and> \<not> submitDisabled (Some False) sixDigits
   \<and> Called_onSubmit (js ''123456'') \<in> set (snd (OTPForm_handleSubmit False sixDigits))
   \<and> Toasted \<lparr> toast_title = js ''Invalid OTP'',
                toast_description = js ''Please enter a 6-digit OTP'',
                toast_variant = Some destructive \<rparr>
        \<notin> set (snd (OTPForm_handleSubmit False sixDigits))"
proof -
  have short: "length (otp threeDigits) \<noteq> 6" and o3: "otp threeDigits = js ''123''"
    by (simp_all add: threeDigits_def js_def)
  have full: "length (otp sixDigits) = 6" and o6: "otp sixDigits = js ''123456''"
    by (simp_all add: sixDigits_def js_def)
  have enabled: "\<not> submitDisabled (Some False) sixDigits"
    using full by (simp add: submitDisabled_def)
  show ?thesis
    using short full enabled o3 o6
      otp_length_guard [of "js ''123''" False threeDigits "Some False"]
      otp_length_guard [of "js ''123456''" False sixDigits "Some False"]
    by simp
qed

section \<open>Registration and logout\<close>

text \<open>
  Claim C6. When the sign-up is accepted, \<open>handleRegister\<close> stores the submitted email
  as the pending email and moves to the mode \<open>otp\<close>, leaving the profile, the user and
  the session as they were. When the sign-up fails, the mode and the pending email are
  unchanged, so a registration started in the mode \<open>register\<close> stays there.
\<close>

theorem register_transition:
  "(signUp = resolved None \<longrightarrow>
      pendingEmail (handleRegister signUp data s) = reg_email data
      \<and> authMode (handleRegister signUp data s) = Mode_otp
      \<and> currentUser (handleRegister signUp data s) = currentUser s
      \<and> user (handleRegister signUp data s) = user s
      \<and> session (handleRegister signUp data s) = session s)
   \<and> (signUp \<noteq> resolved None \<longrightarrow>
      authMode (handleRegister signUp data s) = authMode s
      \<and> pendingEmail (handleRegister signUp data s) = pendingEmail s
      \<and> currentUser (handleRegister signUp data s) = currentUser s
      \<and> user (handleRegister signUp data s) = user s
      \<and> session (handleRegister signUp data s) = session s)"
  by (cases signUp rule: thrown.cases) (simp_all add: handleRegister_def toast_def Let_def)

theorem register_transition_witness:
  "authMode registering = Mode_register
   \<and> pendingEmail registering = []
   \<and> authMode (handleRegister (resolved None) janeData registering) = Mode_otp
   \<and> pendingEmail (handleRegister (resolved None) janeData registering) = js ''jane@x.com''
   \<and> user (handleRegister (resolved None) janeData registering) = None
   \<and> rejected networkError \<noteq> resolved None
   \<and> authMode (handleRegister (rejected networkError) janeData registering) = Mode_register
   \<and> pendingEmail (handleRegister (rejected networkError) janeData registering) = []"
proof -
  have start: "authMode registering = Mode_register" "pendingEmail registering = []"
    "user registering = None"
    by (simp_all add: registering_def initial_state_def)
  have email: "reg_email janeData = js ''jane@x.com''"
    by (simp add: janeData_def)
  show ?thesis
    using start email
      register_transition [of "resolved None" janeData registering]
      register_transition [of "rejected networkError" janeData registering]
    by simp
qed

text \<open>
  Claim C2, as stated, fails: when the remote sign-out answers with an error, the
  application stays in the mode \<open>chat\<close> with its profile, user and session in place.
\<close>

theorem logout_failure_counterexample:
  "authMode (handleLogout (resolved (Some networkError)) signedIn) = Mode_chat
   \<and> currentUser (handleLogout (resolved (Some networkError)) signedIn) \<noteq> None
   \<and> user (handleLogout (resolved (Some networkError)) signedIn) \<noteq> None
   \<and> session (handleLogout (resolved (Some networkError)) signedIn) \<noteq> None"
  by (simp add: handleLogout_def toast_def signedIn_def onAuthStateChange_def
        fetchUserProfile_def initial_state_def janeSession_def)

text \<open>
  Claim C2, amended. When the remote sign-out succeeds, \<open>handleLogout\<close> moves to the
  mode \<open>login\<close> and clears the profile, the user and the session. When it fails, the
  failure is reported by a destructive toast \<open>Logout failed\<close> and every state cell is
  left as it was.
\<close>

theorem logout_teardown:
  "(signOut = resolved None \<longrightarrow>
      authMode (handleLogout signOut s) = Mode_login
      \<and> currentUser (handleLogout signOut s) = None
      \<and> user (handleLogout signOut s) = None
      \<and> session (handleLogout signOut s) = None)
   \<and> (signOut \<noteq> resolved None \<longrightarrow>
      authMode (handleLogout signOut s) = authMode s
      \<and> currentUser (handleLogout signOut s) = currentUser s
      \<and> user (handleLogout signOut s) = user s
      \<and> session (handleLogout signOut s) = session s
      \<and> pendingEmail (handleLogout signOut s) = pendingEmail s
      \<and> isLoading (handleLogout signOut s) = isLoading s
      \<and> map toast_title (toasts (handleLogout signOut s)) =
          map toast_title (toasts s) @ [js ''Logout failed'']
      \<and> map toast_variant (toasts (handleLogout signOut s)) =
          map toast_variant (toasts s) @ [Some destructive])"
  by (cases signOut rule: thrown.cases) (simp_all add: handleLogout_def toast_def)

theorem logout_teardown_witness:
  "authMode signedIn = Mode_chat
   \<and> authMode (handleLogout (resolved None) signedIn) = Mode_login
   \<and> currentUser (handleLogout (resolved None) signedIn) = None
   \<and> user (handleLogout (resolved None) signedIn) = None
   \<and> session (handleLogout (resolved None) signedIn) = None
   \<and> resolved (Some networkError) \<noteq> resolved None
   \<and> authMode (handleLogout (resolved (Some networkError)) signedIn) = Mode_chat
   \<and> map toast_title (toasts (handleLogout (resolved (Some networkError)) signedIn)) =
       [js ''Logout failed'']"
proof -
  have start: "authMode signedIn = Mode_chat" "toasts signedIn = []"
    by (simp_all add: signedIn_def onAuthStateChange_def fetchUserProfile_def initial_state_def)
  show ?thesis
    using start
      logout_teardown [of "resolved None" signedIn]
      logout_teardown [of "resolved (Some networkError)" signedIn]
    by simp
qed

section \<open>Counterpart and search\<close>

text \<open>
  Claim C4, as stated, fails for group conversations: in a group of Jane, Alice and Bob,
  \<open>getChatPartner\<close> returns Alice, not none.
\<close>

theorem group_counterpart_counterexample:
  "chat_isGroup groupChat \<and> getChatPartner jane groupChat = Some alice"
  by (simp add: getChatPartner_def groupChat_def jane_def alice_def js_def)

text \<open>
  Claim C4, amended. \<open>getChatPartner\<close> returns the first participant, in the order of
  the participant list, whose id differs from the local user's, whether or not the
  conversation is a group. When exactly one participant differs, as in a two-party
  conversation, it is that participant. The result is none exactly when every participant
  carries the local user's id (in particular for a list holding only the local user, or
  the empty list). The function is total: no input makes it fail.
\<close>

theorem counterpart_resolution:
  "(filter (\<lambda>p. user_id p \<noteq> user_id me) (chat_participants c) = [q] \<longrightarrow>
      getChatPartner me c = Some q)
   \<and> getChatPartner me c =
       (case filter (\<lambda>p. user_id p \<noteq> user_id me) (chat_participants c) of
          [] \<Rightarrow> None | p # _ \<Rightarrow> Some p)
   \<and> (getChatPartner me c = None) =
       (\<forall>p \<in> set (chat_participants c). user_id p = user_id me)
   \<and> getChatPartner me (c\<lparr>chat_isGroup := g\<rparr>) = getChatPartner me c"
proof (intro conjI impI)
  show first: "getChatPartner me c =
      (case filter (\<lambda>p. user_id p \<noteq> user_id me) (chat_participants c) of
         [] \<Rightarrow> None | p # _ \<Rightarrow> Some p)"
    by (simp add: getChatPartner_def find_first_of_filter)
  show "getChatPartner me c = Some q"
    if "filter (\<lambda>p. user_id p \<noteq> user_id me) (chat_participants c) = [q]"
    using that first by simp
  show "(getChatPartner me c = None) =
      (\<forall>p \<in> set (chat_participants c). user_id p = user_id me)"
    by (auto simp: getChatPartner_def find_None_iff)
  show "getChatPartner me (c\<lparr>chat_isGroup := g\<rparr>) = getChatPartner me c"
    by (simp add: getChatPartner_def)
qed

theorem counterpart_resolution_witness:
  "filter (\<lambda>p. user_id p \<noteq> user_id jane) (chat_participants aliceChat) = [alice]
   \<and> getChatPartner jane aliceChat = Some alice
   \<and> getChatPartner jane (aliceChat\<lparr>chat_isGroup := True\<rparr>) = Some alice
   \<and> chat_participants soloChat = [jane]
   \<and> getChatPartner jane soloChat = None"
proof -
  have two: "filter (\<lambda>p. user_id p \<noteq> user_id jane) (chat_participants aliceChat) = [alice]"
    by (simp add: aliceChat_def jane_def alice_def js_def)
  have solo: "chat_participants soloChat = [jane]"
    by (simp add: soloChat_def)
  show ?thesis
    using two solo
      counterpart_resolution [of jane aliceChat alice True]
      counterpart_resolution [of jane soloChat alice True]
    by simp
qed

text \<open>
  Claim C5, as stated, fails for the empty query: a conversation with no counterpart and
  no name is left out of the result.
\<close>

theorem empty_query_counterexample:
  "filteredChats toLowerCase_latin jane [] [soloChat] = [] \<and> [soloChat] \<noteq> []"
  by (simp add: filteredChats_def chatMatches_def getChatPartner_def soloChat_def)

text \<open>
  Claim C5, amended. The search keeps, in store order, exactly the conversations whose
  counterpart's name, or whose own name, lower-cased, contains the lower-cased query as
  a substring. For the empty query these are the conversations that have a counterpart
  or a name; a conversation with neither is omitted.
\<close>

theorem search_semantics:
  "filteredChats toLowerCase me query cs =
     filter (\<lambda>c. (\<exists>p pre post. getChatPartner me c = Some p
                       \<and> toLowerCase (user_name p) = pre @ toLowerCase query @ post)
                \<or> (\<exists>n pre post. chat_name c = Some n
                       \<and> toLowerCase n = pre @ toLowerCase query @ post)) cs
   \<and> (toLowerCase [] = [] \<longrightarrow>
        filteredChats toLowerCase me [] cs =
          filter (\<lambda>c. \<not> (getChatPartner me c = None \<and> chat_name c = None)) cs)"
proof -
  have "chatMatches toLowerCase me query c =
          ((\<exists>p pre post. getChatPartner me c = Some p
                \<and> toLowerCase (user_name p) = pre @ toLowerCase query @ post)
           \<or> (\<exists>n pre post. chat_name c = Some n
                \<and> toLowerCase n = pre @ toLowerCase query @ post))" for c
    by (simp add: chatMatches_def includes_js_iff split: option.splits)
  moreover have "toLowerCase [] = [] \<Longrightarrow>
      chatMatches toLowerCase me [] c = (\<not> (getChatPartner me c = None \<and> chat_name c = None))" for c
    by (simp add: chatMatches_def includes_js_empty split: option.splits)
  ultimately show ?thesis
    by (simp add: filteredChats_def cong: filter_cong)
qed

theorem search_semantics_witness:
  "toLowerCase_latin [] = []
   \<and> filteredChats toLowerCase_latin jane (js ''ALI'') [aliceChat, groupChat, soloChat] =
       [aliceChat, groupChat]
   \<and> filteredChats toLowerCase_latin jane (js ''team'') [aliceChat, groupChat, soloChat] =
       [groupChat]
   \<and> filteredChats toLowerCase_latin jane [] [aliceChat, groupChat, soloChat] =
       [aliceChat, groupChat]"
proof -
  have lc: "toLowerCase_latin [] = []"
    by (simp add: toLowerCase_latin_def)
  have partners: "getChatPartner jane aliceChat = Some alice"
    "getChatPartner jane groupChat = Some alice" "getChatPartner jane soloChat = None"
    by (simp_all add: getChatPartner_def aliceChat_def groupChat_def soloChat_def
          jane_def alice_def js_def)
  have names: "chat_name aliceChat = None" "chat_name groupChat = Some (js ''Team'')"
    "chat_name soloChat = None" "user_name alice = js ''Alice Johnson''"
    by (simp_all add: aliceChat_def groupChat_def soloChat_def alice_def)
  have ali: "includes_js (toLowerCase_latin (js ''Alice Johnson'')) (toLowerCase_latin (js ''ALI''))"
    "\<not> includes_js (toLowerCase_latin (js ''Alice Johnson'')) (toLowerCase_latin (js ''team''))"
    "includes_js (toLowerCase_latin (js ''Team'')) (toLowerCase_latin (js ''team''))"
    by (simp_all add: toLowerCase_latin_def js_def)
  have empty_query:
    "filteredChats toLowerCase_latin jane [] [aliceChat, groupChat, soloChat] =
       filter (\<lambda>c. \<not> (getChatPartner jane c = None \<and> chat_name c = None))
         [aliceChat, groupChat, soloChat]"
    by (rule mp [OF conjunct2 [OF search_semantics
          [of toLowerCase_latin jane "[]" "[aliceChat, groupChat, soloChat]"]] lc])
  have r1: "filteredChats toLowerCase_latin jane (js ''ALI'') [aliceChat, groupChat, soloChat] =
       [aliceChat, groupChat]"
    by (simp add: filteredChats_def chatMatches_def partners names ali)
  have r2: "filteredChats toLowerCase_latin jane (js ''team'') [aliceChat, groupChat, soloChat] =
       [groupChat]"
    by (simp add: filteredChats_def chatMatches_def partners names ali)
  have r3: "filteredChats toLowerCase_latin jane [] [aliceChat, groupChat, soloChat] =
       [aliceChat, groupChat]"
    by (simp add: empty_query partners names)
  show ?thesis
    using lc r1 r2 r3 by simp
qed

section \<open>Profile derivation\<close>

text \<open>
  What the body of \<open>fetchUserProfile\<close> computes from the user of its closure: the
  local part of the email, or \<open>User\<close> when the email is absent or that part is empty,
  and an avatar reference that depends on the email alone.
\<close>

lemma fetchUserProfile_of_closure:
  "map_option profile_name (currentUser (fetchUserProfile u uid n s)) =
     Some (case email_of u of
             None \<Rightarrow> js ''User''
           | Some e \<Rightarrow> if localPartOf e = [] then js ''User'' else localPartOf e)
   \<and> map_option profile_avatar (currentUser (fetchUserProfile u uid n s)) =
       Some (Some (avatarOf (email_of u)))
   \<and> map_option profile_id (currentUser (fetchUserProfile u uid n s)) = Some uid"
  by (simp add: fetchUserProfile_def defaultUser_def nameOf_localPart nameOf_absent
        split: option.splits)

text \<open>
  At both call sites the closure is the first render's, whose user is absent, whatever
  session arrives.
\<close>

lemma call_sites_ignore_principal:
  "map_option profile_name (currentUser (onAuthStateChange (Some se) now s)) = Some (js ''User'')
   \<and> map_option profile_name (currentUser (getSession_then (Some se) now s)) = Some (js ''User'')
   \<and> map_option profile_avatar (currentUser (onAuthStateChange (Some se) now s)) =
       Some (Some (avatarOf None))
   \<and> map_option profile_avatar (currentUser (getSession_then (Some se) now s)) =
       Some (Some (avatarOf None))"
  by (simp add: onAuthStateChange_def getSession_then_def fetchUserProfile_def defaultUser_def
        initial_state_def email_of_def nameOf_absent Let_def)

text \<open>
  Claim C7 asks that the display name be the local part of the principal's email. The
  code does not deliver it: when Jane's session (email \<open>jane@x.com\<close>, local part
  \<open>jane\<close>) reaches the listener or the continuation of \<open>getSession\<close>, the user
  cell holds her email, yet the profile gets the name \<open>User\<close>, an empty email and the
  avatar seed \<open>undefined\<close>, because the profile is built from the first render's
  absent user.
\<close>

theorem stale_profile_after_sign_in:
  "map_option authUser_email (user (onAuthStateChange (Some janeSession) 1700000000000 initial_state)) =
     Some (Some (js ''jane@x.com''))
   \<and> localPartOf (js ''jane@x.com'') = js ''jane''
   \<and> map_option profile_name
        (currentUser (onAuthStateChange (Some janeSession) 1700000000000 initial_state)) =
       Some (js ''User'')
   \<and> map_option profile_email
        (currentUser (onAuthStateChange (Some janeSession) 1700000000000 initial_state)) =
       Some []
   \<and> map_option profile_avatar
        (currentUser (onAuthStateChange (Some janeSession) 1700000000000 initial_state)) =
       Some (Some (js ''https://api.dicebear.com/7.x/avataaars/svg?seed=undefined''))
   \<and> map_option profile_name
        (currentUser (getSession_then (Some janeSession) 1700000000000 initial_state)) =
       Some (js ''User'')
   \<and> js ''User'' \<noteq> js ''jane''"
proof -
  have lp: "localPartOf (js ''jane@x.com'') = js ''jane''"
    by (simp add: localPartOf_def js_def)
  have ne: "js ''User'' \<noteq> js ''jane''"
    by (simp add: js_def)
  have cells: "map_option authUser_email
        (user (onAuthStateChange (Some janeSession) 1700000000000 initial_state)) =
      Some (Some (js ''jane@x.com''))"
    by (simp add: onAuthStateChange_def fetchUserProfile_def janeSession_def janeAuth_def Let_def)
  have profile: "currentUser (onAuthStateChange (Some janeSession) 1700000000000 initial_state) =
      Some (defaultUser None (js ''u-1'') 1700000000000)"
    "currentUser (getSession_then (Some janeSession) 1700000000000 initial_state) =
      Some (defaultUser None (js ''u-1'') 1700000000000)"
    by (simp_all add: onAuthStateChange_def getSession_then_def fetchUserProfile_def
          initial_state_def janeSession_def janeAuth_def Let_def)
  have built: "profile_name (defaultUser None uid n) = js ''User''"
    "profile_email (defaultUser None uid n) = []"
    "profile_avatar (defaultUser None uid n) =
       Some (js ''https://api.dicebear.com/7.x/avataaars/svg?seed=undefined'')" for uid n
    by (simp_all add: defaultUser_def email_of_def nameOf_absent orElse_def avatarOf_def js_def)
  show ?thesis
    using lp ne cells by (simp add: profile built)
qed

end
